theory Spec2Isabelle
  imports Complex_Main
begin

section \<open>JavaScript values\<close>

text \<open>
  The models and repositories are JavaScript classes working on plain objects. A value
  is one of the following; numbers are rationals (the values the schemas speak of are
  small decimals and integers), with \<open>NaN\<close> apart. A \<open>Date\<close> object (a valid
  one) is identified with the ISO-8601 text that \<open>toISOString()\<close> gives for it. An object is
  an association list (of distinct keys, none of them an integer index), so that
  \<open>Object.keys\<close> has the insertion order of the program.
  A function value (a method found on the prototype) is known by its name only.
\<close>

datatype jsval =
    JUndefined
  | JNull
  | JBool bool
  | JNum rat
  | JNaN
  | JStr string
  | JDate string
  | JArr "jsval list"
  | JObj "(string \<times> jsval) list"
  | JFun string

type_synonym jsobj = "(string \<times> jsval) list"

datatype error = Error string | TypeError string

text \<open>Truthiness, as \<open>||\<close>, \<open>!\<close> and \<open>if\<close> use it.\<close>

fun truthy :: "jsval \<Rightarrow> bool" where
  "truthy JUndefined = False"
| "truthy JNull = False"
| "truthy (JBool b) = b"
| "truthy (JNum r) = (r \<noteq> 0)"
| "truthy JNaN = False"
| "truthy (JStr s) = (s \<noteq> [])"
| "truthy (JDate s) = True"
| "truthy (JArr xs) = True"
| "truthy (JObj kvs) = True"
| "truthy (JFun f) = True"

definition js_or :: "jsval \<Rightarrow> jsval \<Rightarrow> jsval" where
  "js_or a b = (if truthy a then a else b)"

text \<open>Property read \<open>o[k]\<close> on own properties, and property write \<open>o[k] = v\<close>:
  an existing key keeps its place, a new key goes last.\<close>

definition get :: "jsobj \<Rightarrow> string \<Rightarrow> jsval" where
  "get obj k = (case map_of obj k of None \<Rightarrow> JUndefined | Some v \<Rightarrow> v)"

fun put :: "string \<Rightarrow> jsval \<Rightarrow> jsobj \<Rightarrow> jsobj" where
  "put k v [] = [(k, v)]"
| "put k v ((k', v') # kvs) = (if k' = k then (k, v) # kvs else (k', v') # put k v kvs)"

text \<open>\<open>Object.assign(target, source)\<close>: every own property of the source is written
  to the target, in the source's order.\<close>

definition assign :: "jsobj \<Rightarrow> jsobj \<Rightarrow> jsobj" where
  "assign target source = fold (\<lambda>(k, v) t. put k v t) source target"

definition keys :: "(string \<times> 'a) list \<Rightarrow> string list" where
  "keys obj = map fst obj"

text \<open>Numbers in relational comparisons. \<open>null\<close> and booleans are converted as
  JavaScript converts them; \<open>undefined\<close>, \<open>NaN\<close>, objects and functions give \<open>NaN\<close>
  (\<open>None\<close>), with which every comparison is false. Strings, arrays and dates, which
  JavaScript would parse, are outside the model and are treated as \<open>NaN\<close> too; the
  comparisons of the models are only reached with numbers (see the schemas).\<close>

fun to_number :: "jsval \<Rightarrow> rat option" where
  "to_number (JNum r) = Some r"
| "to_number JNull = Some 0"
| "to_number (JBool b) = Some (if b then 1 else 0)"
| "to_number v = None"

definition js_lt :: "jsval \<Rightarrow> jsval \<Rightarrow> bool" where
  "js_lt a b = (case (to_number a, to_number b) of (Some x, Some y) \<Rightarrow> x < y | _ \<Rightarrow> False)"

definition js_ge :: "jsval \<Rightarrow> jsval \<Rightarrow> bool" where
  "js_ge a b = (case (to_number a, to_number b) of (Some x, Some y) \<Rightarrow> y \<le> x | _ \<Rightarrow> False)"

text \<open>Strict equality \<open>===\<close>. \<open>NaN\<close> equals nothing. Objects, arrays, dates and
  functions are compared by reference in JavaScript; the model has no references and
  compares them by structure, which is the answer for one object compared with itself.\<close>

definition strict_eq :: "jsval \<Rightarrow> jsval \<Rightarrow> bool" where
  "strict_eq a b = (a \<noteq> JNaN \<and> a = b)"

text \<open>\<open>parseFloat\<close> and \<open>parseInt\<close>. On a number \<open>parseFloat\<close> is the identity and
  \<open>parseInt\<close> drops the fraction (for magnitudes that print without an exponent, from
  \<open>1e-6\<close> up to \<open>1e21\<close>). \<open>undefined\<close>, \<open>null\<close>, booleans, dates, plain objects and
  functions print as text that starts with no digit and give \<open>NaN\<close>. Strings and arrays
  of digits, which JavaScript parses, are outside the model and give \<open>NaN\<close> here.\<close>

fun parseFloat :: "jsval \<Rightarrow> jsval" where
  "parseFloat (JNum r) = JNum r"
| "parseFloat v = JNaN"

definition trunc :: "rat \<Rightarrow> rat" where
  "trunc r = (if 0 \<le> r then of_int \<lfloor>r\<rfloor> else of_int \<lceil>r\<rceil>)"

fun parseInt :: "jsval \<Rightarrow> jsval" where
  "parseInt (JNum r) = JNum (trunc r)"
| "parseInt v = JNaN"

section \<open>Text\<close>

definition digit :: "nat \<Rightarrow> char" where
  "digit n = ''0123456789'' ! n"

function show_nat :: "nat \<Rightarrow> string" where
  "show_nat n = (if n < 10 then [digit n] else show_nat (n div 10) @ [digit (n mod 10)])"
  by pat_completeness auto
termination
  by (relation "measure id") auto

declare show_nat.simps [simp del]

text \<open>\<open>xs.join(sep)\<close> on strings.\<close>

fun join :: "string \<Rightarrow> string list \<Rightarrow> string" where
  "join sep [] = []"
| "join sep [x] = x"
| "join sep (x # y # ys) = x @ sep @ join sep (y # ys)"

definition quoted :: "string \<Rightarrow> string" where
  "quoted s = [CHR 0x22] @ s @ [CHR 0x22]"

text \<open>The positional placeholder \<open>$n\<close>.\<close>

definition dollar :: "nat \<Rightarrow> string" where
  "dollar n = CHR ''$'' # show_nat n"

section \<open>Schemas: the Joi calls the models use\<close>

text \<open>
  The schemas are written with the validation library Joi, which is not part of the
  repository. A field's schema is kept as the chain of calls that builds it, so that
  \<open>Joi.string().guid().required()\<close> reads \<open>[Joi_string, Joi_guid, Joi_required]\<close>.
  The reading of a chain below follows the library: an absent value is an error only
  when required; a value of the allow list (\<open>valid\<close>, \<open>allow\<close>) passes at once;
  with \<open>valid\<close> any other value is reported, and the check goes on when errors are
  collected; a value of the wrong base type gives one error and ends the field;
  otherwise every rule of the chain is tried.
  Two simplifications: a number-typed field takes numbers only (the library would also
  convert a string that spells a number), and the ISO-8601 test accepts the one shape
  that \<open>toISOString()\<close> produces. String lengths count \<open>char\<close>s.
\<close>

datatype joi_call =
    Joi_string | Joi_number | Joi_object | Joi_array | Joi_date
  | Joi_guid | Joi_required | Joi_valid "jsval list" | Joi_allow "jsval list"
  | Joi_default | Joi_min nat | Joi_max nat | Joi_integer | Joi_iso
  | Joi_items "joi_call list"

type_synonym joi_schema = "(string \<times> joi_call list) list"

definition is_hex :: "char \<Rightarrow> bool" where
  "is_hex c = (c \<in> set ''0123456789abcdefABCDEF'')"

definition is_digit :: "char \<Rightarrow> bool" where
  "is_digit c = (c \<in> set ''0123456789'')"

text \<open>\<open>take_hex n s\<close> reads \<open>n\<close> hexadecimal digits and gives the rest.\<close>

fun take_hex :: "nat \<Rightarrow> string \<Rightarrow> string option" where
  "take_hex 0 s = Some s"
| "take_hex (Suc n) [] = None"
| "take_hex (Suc n) (c # s) = (if is_hex c then take_hex n s else None)"

definition opt_sep :: "char \<Rightarrow> string \<Rightarrow> string" where
  "opt_sep c s = (case s of [] \<Rightarrow> [] | d # r \<Rightarrow> if d = c then r else s)"

text \<open>The body of a GUID: 8-4-4-4-12 hexadecimal digits; the separator after the first
  group (\<open>-\<close> or \<open>:\<close>), when there is one, may be repeated after each later group.\<close>

definition guid_body :: "string \<Rightarrow> bool" where
  "guid_body s =
     (case take_hex 8 s of
        None \<Rightarrow> False
      | Some r1 \<Rightarrow>
          (case r1 of
             [] \<Rightarrow> False
           | c # r2 \<Rightarrow>
               if c = CHR ''-'' \<or> c = CHR '':'' then
                 (case take_hex 4 r2 of None \<Rightarrow> False | Some r3 \<Rightarrow>
                  (case take_hex 4 (opt_sep c r3) of None \<Rightarrow> False | Some r4 \<Rightarrow>
                   (case take_hex 4 (opt_sep c r4) of None \<Rightarrow> False | Some r5 \<Rightarrow>
                    take_hex 12 (opt_sep c r5) = Some [])))
               else take_hex 24 r1 = Some []))"

text \<open>A GUID may stand in a pair of brackets that match.\<close>

definition joi_guid :: "string \<Rightarrow> bool" where
  "joi_guid s =
     (case s of
        [] \<Rightarrow> False
      | c # r \<Rightarrow>
          if c = CHR ''{'' then r \<noteq> [] \<and> last r = CHR ''}'' \<and> guid_body (butlast r)
          else if c = CHR ''['' then r \<noteq> [] \<and> last r = CHR '']'' \<and> guid_body (butlast r)
          else if c = CHR ''('' then r \<noteq> [] \<and> last r = CHR '')'' \<and> guid_body (butlast r)
          else guid_body s)"

definition iso_shape :: "char \<Rightarrow> char \<Rightarrow> bool" where
  "iso_shape p c = (if p = CHR ''d'' then is_digit c else c = p)"

definition is_iso :: "string \<Rightarrow> bool" where
  "is_iso s = list_all2 iso_shape ''dddd-dd-ddTdd:dd:dd.dddZ'' s"

definition is_required :: "joi_call list \<Rightarrow> bool" where
  "is_required chain = (Joi_required \<in> set chain)"

fun allow_of :: "joi_call \<Rightarrow> jsval list" where
  "allow_of (Joi_valid vs) = vs"
| "allow_of (Joi_allow vs) = vs"
| "allow_of c = []"

definition allowed_values :: "joi_call list \<Rightarrow> jsval list" where
  "allowed_values chain = concat (map allow_of chain)"

fun is_valid_call :: "joi_call \<Rightarrow> bool" where
  "is_valid_call (Joi_valid vs) = True"
| "is_valid_call c = False"

definition only :: "joi_call list \<Rightarrow> bool" where
  "only chain = list_ex is_valid_call chain"

fun display :: "jsval \<Rightarrow> string" where
  "display (JStr s) = s"
| "display JNull = ''null''"
| "display v = ''?''"

text \<open>The error of the base type, if any.\<close>

fun base_error :: "joi_call \<Rightarrow> jsval \<Rightarrow> string option" where
  "base_error Joi_string v =
     (case v of
        JStr s \<Rightarrow> if s = [] then Some '' is not allowed to be empty'' else None
      | _ \<Rightarrow> Some '' must be a string'')"
| "base_error Joi_number v =
     (case v of JNum r \<Rightarrow> None | _ \<Rightarrow> Some '' must be a number'')"
| "base_error Joi_object v =
     (case v of JObj kvs \<Rightarrow> None | JDate s \<Rightarrow> None | _ \<Rightarrow> Some '' must be of type object'')"
| "base_error Joi_array v =
     (case v of JArr xs \<Rightarrow> None | _ \<Rightarrow> Some '' must be an array'')"
| "base_error Joi_date v =
     (case v of
        JDate s \<Rightarrow> None
      | JStr s \<Rightarrow> if is_iso s then None else Some '' must be in ISO 8601 date format''
      | _ \<Rightarrow> Some '' must be in ISO 8601 date format'')"
| "base_error c v = None"

text \<open>The errors of one field: \<open>field_errors label chain v\<close>; the errors of one rule
  of the chain on a value of the right base type: \<open>rule_errors label base rule v\<close>.\<close>

fun field_errors :: "string \<Rightarrow> joi_call list \<Rightarrow> jsval \<Rightarrow> string list"
and rule_errors :: "string \<Rightarrow> joi_call \<Rightarrow> joi_call \<Rightarrow> jsval \<Rightarrow> string list" where
  "field_errors label chain v =
     (if v = JUndefined then
        (if is_required chain then [quoted label @ '' is required''] else [])
      else if v \<in> set (allowed_values chain) then []
      else
        (if only chain then
           [quoted label @ '' must be one of ['' @
              join '', '' (map display (allowed_values chain)) @ '']'']
         else []) @
        (case chain of
           [] \<Rightarrow> []
         | base # rest \<Rightarrow>
             (case base_error base v of
                Some m \<Rightarrow> [quoted label @ m]
              | None \<Rightarrow> concat (map (\<lambda>c. rule_errors label base c v) chain))))"
| "rule_errors label base Joi_guid v =
     (case v of
        JStr s \<Rightarrow> if joi_guid s then [] else [quoted label @ '' must be a valid GUID'']
      | _ \<Rightarrow> [])"
| "rule_errors label base (Joi_min n) v =
     (case v of
        JStr s \<Rightarrow>
          if n \<le> length s then []
          else [quoted label @ '' length must be at least '' @ show_nat n @ '' characters long'']
      | JNum r \<Rightarrow>
          if of_nat n \<le> r then []
          else [quoted label @ '' must be greater than or equal to '' @ show_nat n]
      | _ \<Rightarrow> [])"
| "rule_errors label base (Joi_max n) v =
     (case v of
        JStr s \<Rightarrow>
          if length s \<le> n then []
          else [quoted label @ '' length must be less than or equal to '' @ show_nat n @
                '' characters long'']
      | JNum r \<Rightarrow>
          if r \<le> of_nat n then []
          else [quoted label @ '' must be less than or equal to '' @ show_nat n]
      | _ \<Rightarrow> [])"
| "rule_errors label base Joi_integer v =
     (case v of
        JNum r \<Rightarrow> if of_int \<lfloor>r\<rfloor> = r then [] else [quoted label @ '' must be an integer'']
      | _ \<Rightarrow> [])"
| "rule_errors label base (Joi_items ch) v =
     (case v of
        JArr xs \<Rightarrow>
          concat (map (\<lambda>(i, x). field_errors (label @ ''['' @ show_nat i @ '']'') ch x)
                    (enumerate 0 xs))
      | _ \<Rightarrow> [])"
| "rule_errors label base c v = []"

declare field_errors.simps [simp del]

text \<open>\<open>schema.validate(obj, {abortEarly, allowUnknown: true, stripUnknown: true})\<close>:
  the fields are checked in the schema's order; keys the schema does not know are let
  through. With \<open>abortEarly\<close> the first error is the only one reported.\<close>

definition schema_errors :: "joi_schema \<Rightarrow> jsobj \<Rightarrow> string list" where
  "schema_errors sch obj = concat (map (\<lambda>(k, chain). field_errors k chain (get obj k)) sch)"

definition joi_validate :: "bool \<Rightarrow> joi_schema \<Rightarrow> jsobj \<Rightarrow> string list" where
  "joi_validate abortEarly sch obj =
     (if abortEarly then take 1 (schema_errors sch obj) else schema_errors sch obj)"

section \<open>BaseModel\<close>

text \<open>
  \<open>new Date().toISOString()\<close> and \<open>uuidv4()\<close> are read from the environment of a
  call: \<open>now\<close> is the clock's reading (one reading for the whole call) and \<open>uuid\<close>
  the identifier that \<open>uuidv4()\<close> returns.
\<close>

record env =
  now :: string
  uuid :: string

text \<open>
  An instance is the list of its own properties; the methods live on the class. A class
  is known to the generic code through the following members. \<open>methods\<close> are the names
  found on the prototype chain, which a property read \<open>instance[name]\<close> returns when the
  instance has no own property of that name.
  The objects handed to a constructor are taken to carry no property named
  \<open>constructor\<close>, \<open>validate\<close>, \<open>toJSON\<close>, \<open>toDatabase\<close> or \<open>update\<close>
  (it would shadow the method of the class). No key of the schemas below is the name of
  a method, so that reading a field of the schema from an instance reads an own
  property or nothing.
\<close>

record model_class =
  tableName :: string
  schema :: joi_schema
  construct :: "env \<Rightarrow> jsobj \<Rightarrow> jsobj"
  validate :: "jsobj \<Rightarrow> error + unit"
  toJSON :: "jsobj \<Rightarrow> error + jsobj"
  methods :: "string list"

text \<open>\<open>constructor(data = {})\<close> of BaseModel (src/unnamed/part_004, lines 7--14).\<close>

definition BaseModel_constructor :: "env \<Rightarrow> jsobj \<Rightarrow> jsobj" where
  "BaseModel_constructor e data =
     assign
       [(''id'', js_or (get data ''id'') (JStr (uuid e))),
        (''createdAt'', js_or (get data ''createdAt'') (JStr (now e))),
        (''updatedAt'', js_or (get data ''updatedAt'') (JStr (now e)))]
       data"

text \<open>The lines \<open>this.k = data.k || d\<close> of a subclass constructor, in order.\<close>

definition set_defaults :: "(string \<times> jsval) list \<Rightarrow> jsobj \<Rightarrow> jsobj \<Rightarrow> jsobj" where
  "set_defaults defaults data this =
     fold (\<lambda>(k, d) t. put k (js_or (get data k) d) t) defaults this"

text \<open>\<open>validate()\<close> of BaseModel (lines 28--40). It calls the schema with
  \<open>abortEarly: false\<close> and joins the messages of all details. The normalised value that
  it returns on success is not modelled: no caller in the repository reads it.\<close>

definition BaseModel_validate :: "joi_schema \<Rightarrow> jsobj \<Rightarrow> error + unit" where
  "BaseModel_validate sch this =
     (case joi_validate False sch this of
        [] \<Rightarrow> Inr ()
      | m # ms \<Rightarrow> Inl (Error (''Validation failed: '' @ join '', '' (m # ms))))"

text \<open>\<open>toJSON()\<close> of BaseModel (lines 42--53).\<close>

definition BaseModel_toJSON :: "joi_schema \<Rightarrow> jsobj \<Rightarrow> jsobj" where
  "BaseModel_toJSON sch this =
     fold (\<lambda>key json. if get this key \<noteq> JUndefined then put key (get this key) json else json)
       (keys sch) []"

text \<open>\<open>toDatabase()\<close> of BaseModel (lines 55--66). \<open>this.toJSON()\<close> is the method of
  the instance's own class.\<close>

fun date_to_iso :: "jsval \<Rightarrow> jsval" where
  "date_to_iso (JDate s) = JStr s"
| "date_to_iso v = v"

definition BaseModel_toDatabase :: "model_class \<Rightarrow> jsobj \<Rightarrow> error + jsobj" where
  "BaseModel_toDatabase mc this =
     (case toJSON mc this of
        Inl err \<Rightarrow> Inl err
      | Inr data \<Rightarrow> Inr (map (\<lambda>(k, v). (k, date_to_iso v)) data))"

text \<open>\<open>static fromDatabase(data)\<close> (lines 68--71); \<open>None\<close> is \<open>null\<close>.\<close>

definition BaseModel_fromDatabase :: "model_class \<Rightarrow> env \<Rightarrow> jsobj option \<Rightarrow> jsobj option" where
  "BaseModel_fromDatabase mc e data =
     (case data of None \<Rightarrow> None | Some row \<Rightarrow> Some (construct mc e row))"

text \<open>\<open>update(data)\<close> of BaseModel (lines 73--84).\<close>

definition BaseModel_update :: "joi_schema \<Rightarrow> env \<Rightarrow> jsobj \<Rightarrow> jsobj \<Rightarrow> jsobj" where
  "BaseModel_update sch e this data =
     put ''updatedAt'' (JStr (now e))
       (fold (\<lambda>key t. if get data key \<noteq> JUndefined then put key (get data key) t else t)
          (keys sch) this)"

text \<open>A property read \<open>instance[name]\<close>: the own property, else the method of that name.\<close>

definition read_property :: "model_class \<Rightarrow> jsobj \<Rightarrow> string \<Rightarrow> jsval" where
  "read_property mc this name =
     (case map_of this name of
        Some v \<Rightarrow> v
      | None \<Rightarrow> if name \<in> set (methods mc) then JFun name else JUndefined)"

text \<open>A method call \<open>this.name()\<close> reaches the method of the class unless an own
  property of that name shadows it.\<close>

definition callable :: "jsobj \<Rightarrow> string \<Rightarrow> bool" where
  "callable this name = (case map_of this name of None \<Rightarrow> True | Some v \<Rightarrow> v = JFun name)"

definition BaseModel_methods :: "string list" where
  "BaseModel_methods = [''constructor'', ''validate'', ''toJSON'', ''toDatabase'', ''update'']"

section \<open>Correlation (src/models/Correlation.js)\<close>

definition Correlation_schema :: joi_schema where
  "Correlation_schema =
     [(''id'', [Joi_string, Joi_guid, Joi_default]),
      (''sourceDatasetId'', [Joi_string, Joi_guid, Joi_required]),
      (''targetDatasetId'', [Joi_string, Joi_guid, Joi_required]),
      (''type'', [Joi_string,
         Joi_valid [JStr ''one_to_one'', JStr ''one_to_many'', JStr ''many_to_one'',
           JStr ''many_to_many'', JStr ''weighted_many_to_many'', JStr ''temporal'',
           JStr ''spatial'', JStr ''semantic'', JStr ''statistical'', JStr ''structural'',
           JStr ''functional'', JStr ''causal''],
         Joi_required]),
      (''parameters'', [Joi_object, Joi_default]),
      (''confidence'', [Joi_number, Joi_min 0, Joi_max 1, Joi_default]),
      (''validityScore'', [Joi_number, Joi_min 0, Joi_max 1, Joi_default]),
      (''description'', [Joi_string, Joi_max 2000, Joi_allow [JStr []]]),
      (''status'', [Joi_string,
         Joi_valid [JStr ''proposed'', JStr ''validated'', JStr ''invalidated'', JStr ''archived''],
         Joi_default]),
      (''parentCorrelationId'', [Joi_string, Joi_guid, Joi_allow [JNull]]),
      (''version'', [Joi_number, Joi_integer, Joi_min 1, Joi_default]),
      (''tags'', [Joi_array, Joi_items [Joi_string, Joi_max 50], Joi_default]),
      (''metadata'', [Joi_object, Joi_default]),
      (''discoveryMethod'', [Joi_string,
         Joi_valid [JStr ''neural_network'', JStr ''mcts'', JStr ''evolutionary'',
           JStr ''statistical'', JStr ''information_theory'', JStr ''manual'', JStr ''hybrid''],
         Joi_allow [JStr []]]),
      (''lastValidated'', [Joi_date, Joi_iso, Joi_allow [JNull]]),
      (''createdAt'', [Joi_date, Joi_iso, Joi_default]),
      (''updatedAt'', [Joi_date, Joi_iso, Joi_default])]"

text \<open>The constructor (lines 5--21): \<open>super(data)\<close>, then one line per field. The
  empty string is written \<open>JStr []\<close>.\<close>

definition Correlation_defaults :: "(string \<times> jsval) list" where
  "Correlation_defaults =
     [(''sourceDatasetId'', JStr []),
      (''targetDatasetId'', JStr []),
      (''type'', JStr []),
      (''parameters'', JObj []),
      (''confidence'', JNum 0),
      (''validityScore'', JNum 0),
      (''description'', JStr []),
      (''status'', JStr ''proposed''),
      (''parentCorrelationId'', JNull),
      (''version'', JNum 1),
      (''tags'', JArr []),
      (''metadata'', JObj []),
      (''discoveryMethod'', JStr []),
      (''lastValidated'', JNull)]"

definition Correlation_constructor :: "env \<Rightarrow> jsobj \<Rightarrow> jsobj" where
  "Correlation_constructor e data =
     set_defaults Correlation_defaults data (BaseModel_constructor e data)"

text \<open>\<open>validate()\<close> (lines 70--87): \<open>super.validate()\<close> first, whose error leaves the
  method; the three rules of the class after it.\<close>

definition Correlation_validate :: "jsobj \<Rightarrow> error + unit" where
  "Correlation_validate this =
     (case BaseModel_validate Correlation_schema this of
        Inl err \<Rightarrow> Inl err
      | Inr u \<Rightarrow>
          if strict_eq (get this ''sourceDatasetId'') (get this ''targetDatasetId'') then
            Inl (Error ''Source and target datasets cannot be the same'')
          else if js_lt (get this ''confidence'') (JNum 0) \<or>
                  js_lt (JNum 1) (get this ''confidence'') then
            Inl (Error ''Confidence must be between 0 and 1'')
          else if js_lt (get this ''validityScore'') (JNum 0) \<or>
                  js_lt (JNum 1) (get this ''validityScore'') then
            Inl (Error ''Validity score must be between 0 and 1'')
          else Inr ())"

definition Correlation_isValid :: "jsobj \<Rightarrow> bool" where
  "Correlation_isValid this =
     (js_ge (get this ''validityScore'') (JNum (1 / 2)) \<and>
      strict_eq (get this ''status'') (JStr ''validated''))"

definition Correlation_isSignificant :: "jsobj \<Rightarrow> bool" where
  "Correlation_isSignificant this =
     (js_ge (get this ''confidence'') (JNum (7 / 10)) \<and>
      js_ge (get this ''validityScore'') (JNum (6 / 10)))"

text \<open>\<open>toJSON()\<close> (lines 133--143): the fields of \<open>super.toJSON()\<close>, three of them
  parsed again, and the two computed fields. The calls \<open>this.isValid()\<close> and
  \<open>this.isSignificant()\<close> fail when an own property of that name shadows the method.\<close>

definition Correlation_toJSON :: "jsobj \<Rightarrow> error + jsobj" where
  "Correlation_toJSON this =
     (let json = BaseModel_toJSON Correlation_schema this in
      if \<not> callable this ''isValid'' then Inl (TypeError ''this.isValid is not a function'')
      else if \<not> callable this ''isSignificant'' then
        Inl (TypeError ''this.isSignificant is not a function'')
      else
        Inr (assign json
          [(''confidence'', parseFloat (get json ''confidence'')),
           (''validityScore'', parseFloat (get json ''validityScore'')),
           (''version'', parseInt (get json ''version'')),
           (''isValid'', JBool (Correlation_isValid this)),
           (''isSignificant'', JBool (Correlation_isSignificant this))]))"

definition Correlation :: model_class where
  "Correlation =
     \<lparr>tableName = ''correlations'',
      schema = Correlation_schema,
      construct = Correlation_constructor,
      validate = Correlation_validate,
      toJSON = Correlation_toJSON,
      methods = BaseModel_methods @
        [''updateValidation'', ''incrementVersion'', ''archive'', ''isValid'',
         ''isSignificant'', ''addTag'', ''removeTag'']\<rparr>"

text \<open>The mutators of Correlation (lines 89--131). \<open>x++\<close> on a value that is no number
  gives \<open>NaN\<close>; a method of arrays called on a value that is no array is a TypeError.\<close>

definition incr :: "jsval \<Rightarrow> jsval" where
  "incr v = (case to_number v of Some r \<Rightarrow> JNum (r + 1) | None \<Rightarrow> JNaN)"

definition Correlation_updateValidation :: "env \<Rightarrow> jsobj \<Rightarrow> jsval \<Rightarrow> jsval \<Rightarrow> jsobj" where
  "Correlation_updateValidation e this validityScore status =
     (let t1 = put ''validityScore'' validityScore this;
          t2 = put ''lastValidated'' (JStr (now e)) t1;
          t3 = (if truthy status then put ''status'' status t2 else t2)
      in put ''updatedAt'' (JStr (now e)) t3)"

definition Correlation_incrementVersion :: "env \<Rightarrow> jsobj \<Rightarrow> jsobj" where
  "Correlation_incrementVersion e this =
     put ''updatedAt'' (JStr (now e)) (put ''version'' (incr (get this ''version'')) this)"

definition Correlation_archive :: "env \<Rightarrow> jsobj \<Rightarrow> jsobj" where
  "Correlation_archive e this =
     put ''updatedAt'' (JStr (now e)) (put ''status'' (JStr ''archived'') this)"

definition Correlation_addTag :: "env \<Rightarrow> jsobj \<Rightarrow> jsval \<Rightarrow> error + jsobj" where
  "Correlation_addTag e this tag =
     (case get this ''tags'' of
        JArr xs \<Rightarrow>
          if tag \<in> set xs then Inr this
          else Inr (put ''updatedAt'' (JStr (now e)) (put ''tags'' (JArr (xs @ [tag])) this))
      | _ \<Rightarrow> Inl (TypeError ''this.tags.includes is not a function''))"

definition Correlation_removeTag :: "env \<Rightarrow> jsobj \<Rightarrow> jsval \<Rightarrow> error + jsobj" where
  "Correlation_removeTag e this tag =
     (case get this ''tags'' of
        JArr xs \<Rightarrow>
          Inr (put ''updatedAt'' (JStr (now e))
                 (put ''tags'' (JArr (filter (\<lambda>t. \<not> strict_eq t tag) xs)) this))
      | _ \<Rightarrow> Inl (TypeError ''this.tags.filter is not a function''))"

section \<open>Dataset (src/models/Dataset.js)\<close>

definition Dataset_schema :: joi_schema where
  "Dataset_schema =
     [(''id'', [Joi_string, Joi_guid, Joi_default]),
      (''name'', [Joi_string, Joi_required, Joi_min 1, Joi_max 255]),
      (''description'', [Joi_string, Joi_max 5000, Joi_allow [JStr []]]),
      (''schema'', [Joi_object, Joi_default]),
      (''type'', [Joi_string,
         Joi_valid [JStr ''structured'', JStr ''semi-structured'', JStr ''unstructured''],
         Joi_default]),
      (''source'', [Joi_string, Joi_max 1000, Joi_allow [JStr []]]),
      (''format'', [Joi_string,
         Joi_valid [JStr ''json'', JStr ''csv'', JStr ''parquet'', JStr ''xml'', JStr ''avro'',
           JStr ''binary''],
         Joi_default]),
      (''size'', [Joi_number, Joi_integer, Joi_min 0, Joi_default]),
      (''recordCount'', [Joi_number, Joi_integer, Joi_min 0, Joi_default]),
      (''metadata'', [Joi_object, Joi_default]),
      (''status'', [Joi_string,
         Joi_valid [JStr ''active'', JStr ''archived'', JStr ''processing'', JStr ''error''],
         Joi_default]),
      (''lastAccessed'', [Joi_date, Joi_iso, Joi_default]),
      (''tags'', [Joi_array, Joi_items [Joi_string, Joi_max 50], Joi_default]),
      (''visibility'', [Joi_string,
         Joi_valid [JStr ''private'', JStr ''public'', JStr ''shared''],
         Joi_default]),
      (''ownerId'', [Joi_string, Joi_guid, Joi_allow [JNull]]),
      (''createdAt'', [Joi_date, Joi_iso, Joi_default]),
      (''updatedAt'', [Joi_date, Joi_iso, Joi_default])]"

definition Dataset_defaults :: "env \<Rightarrow> (string \<times> jsval) list" where
  "Dataset_defaults e =
     [(''name'', JStr []),
      (''description'', JStr []),
      (''schema'', JObj []),
      (''type'', JStr ''structured''),
      (''source'', JStr []),
      (''format'', JStr ''json''),
      (''size'', JNum 0),
      (''recordCount'', JNum 0),
      (''metadata'', JObj []),
      (''status'', JStr ''active''),
      (''lastAccessed'', JStr (now e)),
      (''tags'', JArr []),
      (''visibility'', JStr ''private''),
      (''ownerId'', JNull)]"

definition Dataset_constructor :: "env \<Rightarrow> jsobj \<Rightarrow> jsobj" where
  "Dataset_constructor e data =
     set_defaults (Dataset_defaults e) data (BaseModel_constructor e data)"

text \<open>\<open>toJSON()\<close> (lines 124--131).\<close>

definition Dataset_toJSON :: "jsobj \<Rightarrow> error + jsobj" where
  "Dataset_toJSON this =
     (let json = BaseModel_toJSON Dataset_schema this in
      Inr (assign json
        [(''recordCount'', parseInt (get json ''recordCount'')),
         (''size'', parseInt (get json ''size''))]))"

definition Dataset :: model_class where
  "Dataset =
     \<lparr>tableName = ''datasets'',
      schema = Dataset_schema,
      construct = Dataset_constructor,
      validate = BaseModel_validate Dataset_schema,
      toJSON = Dataset_toJSON,
      methods = BaseModel_methods @
        [''incrementAccessCount'', ''updateStats'', ''addTag'', ''removeTag'', ''archive'',
         ''activate'', ''validateSchema'']\<rparr>"

text \<open>\<open>incrementAccessCount()\<close> (lines 61--68). The result is the instance as the
  method leaves it and the error it raises, if any: \<open>this.metadata\<close> that is no object
  makes the read or the write of \<open>accessCount\<close> a TypeError (class code is strict), after
  \<open>lastAccessed\<close> has been written. (Arrays, dates and functions, which could carry the
  property, are not considered.)\<close>

definition Dataset_incrementAccessCount :: "env \<Rightarrow> jsobj \<Rightarrow> jsobj \<times> error option" where
  "Dataset_incrementAccessCount e this =
     (let t1 = put ''lastAccessed'' (JStr (now e)) this in
      case get t1 ''metadata'' of
        JObj m \<Rightarrow>
          (let m1 = (if \<not> truthy (get m ''accessCount'') then put ''accessCount'' (JNum 0) m
                     else m);
               m2 = put ''accessCount'' (incr (get m1 ''accessCount'')) m1
           in (put ''metadata'' (JObj m2) t1, None))
      | _ \<Rightarrow> (t1, Some (TypeError ''Cannot access accessCount of this.metadata'')))"

definition Dataset_updateStats :: "env \<Rightarrow> jsobj \<Rightarrow> jsval \<Rightarrow> jsval \<Rightarrow> jsobj" where
  "Dataset_updateStats e this recordCount size' =
     put ''updatedAt'' (JStr (now e)) (put ''size'' size' (put ''recordCount'' recordCount this))"

definition Dataset_addTag :: "env \<Rightarrow> jsobj \<Rightarrow> jsval \<Rightarrow> error + jsobj" where
  "Dataset_addTag e this tag =
     (case get this ''tags'' of
        JArr xs \<Rightarrow>
          if tag \<in> set xs then Inr this
          else Inr (put ''updatedAt'' (JStr (now e)) (put ''tags'' (JArr (xs @ [tag])) this))
      | _ \<Rightarrow> Inl (TypeError ''this.tags.includes is not a function''))"

definition Dataset_removeTag :: "env \<Rightarrow> jsobj \<Rightarrow> jsval \<Rightarrow> error + jsobj" where
  "Dataset_removeTag e this tag =
     (case get this ''tags'' of
        JArr xs \<Rightarrow>
          Inr (put ''updatedAt'' (JStr (now e))
                 (put ''tags'' (JArr (filter (\<lambda>t. \<not> strict_eq t tag) xs)) this))
      | _ \<Rightarrow> Inl (TypeError ''this.tags.filter is not a function''))"

definition Dataset_archive :: "env \<Rightarrow> jsobj \<Rightarrow> jsobj" where
  "Dataset_archive e this =
     put ''updatedAt'' (JStr (now e)) (put ''status'' (JStr ''archived'') this)"

definition Dataset_activate :: "env \<Rightarrow> jsobj \<Rightarrow> jsobj" where
  "Dataset_activate e this =
     put ''updatedAt'' (JStr (now e)) (put ''status'' (JStr ''active'') this)"

section \<open>BaseRepository (src/repositories/DatasetRepository.js, lines 366--685)\<close>

text \<open>
  A statement is the query text and the list of its positional parameters: \<open>$n\<close> in the
  text stands for the \<open>n\<close>-th parameter. The storage is whatever answers
  \<open>pool.query(text, params)\<close>: given the statements issued before and the new one, it
  returns rows or raises. Every operation takes the list of the statements issued so
  far and returns it extended by those it issued.
  The text of a template literal is kept with single blanks for its line breaks and
  indentation.
\<close>

type_synonym statement = "string \<times> jsval list"

type_synonym storage = "statement list \<Rightarrow> statement \<Rightarrow> error + jsobj list"

text \<open>The value the placeholder \<open>$n\<close> is bound to.\<close>

definition bound :: "jsval list \<Rightarrow> nat \<Rightarrow> jsval option" where
  "bound params n = (if 1 \<le> n \<and> n \<le> length params then Some (params ! (n - 1)) else None)"

text \<open>The options of \<open>findAll\<close>, with the defaults of its destructuring (line 420).\<close>

record find_options =
  limit :: jsval
  offset :: jsval
  orderBy :: string
  order :: string
  where_bag :: jsobj

definition default_options :: find_options where
  "default_options =
     \<lparr>limit = JNum 50, offset = JNum 0, orderBy = ''createdAt'', order = ''DESC'',
      where_bag = []\<rparr>"

text \<open>The callback of \<open>Object.entries(where).map\<close> in \<open>findAll\<close> (lines 427--438). It
  pushes to \<open>params\<close> and advances \<open>paramIndex\<close>; these are the state
  \<open>(params, paramIndex)\<close>.\<close>

definition findAll_condition ::
  "string \<times> jsval \<Rightarrow> jsval list \<times> nat \<Rightarrow> string \<times> (jsval list \<times> nat)" where
  "findAll_condition entry st =
     (case (entry, st) of
        ((key, val), (params, paramIndex)) \<Rightarrow>
          (case val of
             JArr vs \<Rightarrow>
               (key @ '' = ANY('' @ dollar paramIndex @ '')::uuid[]'',
                (params @ vs, paramIndex + 1))
           | JDate s \<Rightarrow>
               (key @ '' = '' @ dollar paramIndex, (params @ [JStr s], paramIndex + 1))
           | _ \<Rightarrow>
               (key @ '' = '' @ dollar paramIndex, (params @ [val], paramIndex + 1))))"

text \<open>The callback in \<open>count\<close> (lines 541--549).\<close>

definition count_condition ::
  "string \<times> jsval \<Rightarrow> jsval list \<times> nat \<Rightarrow> string \<times> (jsval list \<times> nat)" where
  "count_condition entry st =
     (case (entry, st) of
        ((key, val), (params, paramIndex)) \<Rightarrow>
          (case val of
             JArr vs \<Rightarrow>
               (key @ '' = ANY('' @ dollar paramIndex @ '')::uuid[]'',
                (params @ vs, paramIndex + 1))
           | _ \<Rightarrow>
               (key @ '' = '' @ dollar paramIndex, (params @ [val], paramIndex + 1))))"

text \<open>\<open>map\<close> with a callback that changes state: the conditions, and the state after
  the last entry.\<close>

fun where_conditions ::
  "(string \<times> jsval \<Rightarrow> jsval list \<times> nat \<Rightarrow> string \<times> (jsval list \<times> nat)) \<Rightarrow>
   jsobj \<Rightarrow> jsval list \<times> nat \<Rightarrow> string list \<times> (jsval list \<times> nat)" where
  "where_conditions f [] st = ([], st)"
| "where_conditions f (entry # entries) st =
     (case f entry st of
        (c, st1) \<Rightarrow> (case where_conditions f entries st1 of (cs, st2) \<Rightarrow> (c # cs, st2)))"

text \<open>The statement that \<open>findAll\<close> builds (lines 420--449).\<close>

definition findAll_query :: "string \<Rightarrow> find_options \<Rightarrow> statement" where
  "findAll_query table opts =
     (case where_conditions findAll_condition (where_bag opts) ([], 1) of
        (whereConditions, (params, paramIndex)) \<Rightarrow>
          (let q0 = ''SELECT * FROM '' @ table;
               q1 = (if length whereConditions > 0
                     then q0 @ '' WHERE '' @ join '' AND '' whereConditions else q0);
               q2 = q1 @ '' ORDER BY '' @ orderBy opts @ '' '' @ order opts;
               q3 = q2 @ '' LIMIT '' @ dollar paramIndex @ '' OFFSET '' @ dollar (paramIndex + 1)
           in (q3, params @ [limit opts, offset opts])))"

text \<open>The statement that \<open>count\<close> builds (lines 537--553).\<close>

definition count_query :: "string \<Rightarrow> jsobj \<Rightarrow> statement" where
  "count_query table wh =
     (case where_conditions count_condition wh ([], 1) of
        (whereConditions, (params, paramIndex)) \<Rightarrow>
          (let q0 = ''SELECT COUNT(*) as count FROM '' @ table;
               q1 = (if length whereConditions > 0
                     then q0 @ '' WHERE '' @ join '' AND '' whereConditions else q0)
           in (q1, params)))"


text \<open>The statement of \<open>DatasetRepository.findRecentlyAccessed(days = 7)\<close>
  (lines 84--91). \<open>${days}\<close> prints the argument into the text: a string as it is, a
  natural number in decimal; the default is taken for \<open>undefined\<close>. The printing of other
  values is not modelled (\<open>None\<close>). The statement has no parameters.\<close>

definition nat_of_num :: "rat \<Rightarrow> nat option" where
  "nat_of_num r = (if 0 \<le> r \<and> of_int \<lfloor>r\<rfloor> = r then Some (nat \<lfloor>r\<rfloor>) else None)"

fun template_text :: "jsval \<Rightarrow> string option" where
  "template_text (JStr s) = Some s"
| "template_text (JNum r) = map_option show_nat (nat_of_num r)"
| "template_text v = None"

definition findRecentlyAccessed_query :: "string \<Rightarrow> jsval \<Rightarrow> statement option" where
  "findRecentlyAccessed_query table days =
     map_option
       (\<lambda>d. (''SELECT * FROM '' @ table @ '' WHERE last_accessed >= NOW() - INTERVAL '' @
              [CHR 0x27] @ d @ '' days'' @ [CHR 0x27] @ '' ORDER BY last_accessed DESC'', []))
       (template_text (if days = JUndefined then JNum 7 else days))"

text \<open>\<open>pool.query\<close>: the storage answers, the statement is on record.\<close>

definition pool_query ::
  "storage \<Rightarrow> statement list \<Rightarrow> statement \<Rightarrow> (error + jsobj list) \<times> statement list" where
  "pool_query db issued st = (db issued st, issued @ [st])"

text \<open>\<open>rows.map(row => this.model.fromDatabase(row))\<close>; the \<open>i\<close>-th object built in a
  call reads the environment \<open>envs i\<close>.\<close>

definition rows_to_models ::
  "model_class \<Rightarrow> (nat \<Rightarrow> env) \<Rightarrow> nat \<Rightarrow> jsobj list \<Rightarrow> jsobj option list" where
  "rows_to_models mc envs k rows =
     map (\<lambda>(i, row). BaseModel_fromDatabase mc (envs i) (Some row)) (enumerate k rows)"

text \<open>\<open>findAll(options)\<close> (lines 418--458) and \<open>count(where)\<close> (lines 535--561). The
  \<open>catch\<close> logs and raises the error again. \<open>parseInt(result.rows[0].count)\<close> of no row
  is a TypeError.\<close>

definition findAll ::
  "model_class \<Rightarrow> storage \<Rightarrow> (nat \<Rightarrow> env) \<Rightarrow> statement list \<Rightarrow> find_options \<Rightarrow>
   (error + jsobj option list) \<times> statement list" where
  "findAll mc db envs issued opts =
     (case pool_query db issued (findAll_query (tableName mc) opts) of
        (Inl err, issued1) \<Rightarrow> (Inl err, issued1)
      | (Inr rows, issued1) \<Rightarrow> (Inr (rows_to_models mc envs 0 rows), issued1))"

definition count ::
  "model_class \<Rightarrow> storage \<Rightarrow> statement list \<Rightarrow> jsobj \<Rightarrow> (error + jsval) \<times> statement list" where
  "count mc db issued wh =
     (case pool_query db issued (count_query (tableName mc) wh) of
        (Inl err, issued1) \<Rightarrow> (Inl err, issued1)
      | (Inr [], issued1) \<Rightarrow> (Inl (TypeError ''Cannot read properties of undefined''), issued1)
      | (Inr (row # rows), issued1) \<Rightarrow> (Inr (parseInt (get row ''count'')), issued1))"

text \<open>The INSERT of \<open>create\<close> (lines 465--473) for an instance and its stored form.\<close>

definition insert_columns :: "jsobj \<Rightarrow> string list" where
  "insert_columns stored = filter (\<lambda>key. key \<noteq> ''id'') (keys stored)"

definition create_query :: "model_class \<Rightarrow> jsobj \<Rightarrow> jsobj \<Rightarrow> statement" where
  "create_query mc instance stored =
     (let columns = insert_columns stored;
          vals = map (\<lambda>index. dollar (index + 1)) [0..<length columns]
      in (''INSERT INTO '' @ tableName mc @ '' ('' @ join '', '' columns @ '') VALUES ('' @
            join '', '' vals @ '') RETURNING *'',
          map (\<lambda>col. read_property mc instance col) columns))"

text \<open>\<open>create(data)\<close> (lines 460--482). \<open>result.rows[0].id\<close> of no row is a
  TypeError.\<close>

definition create ::
  "model_class \<Rightarrow> storage \<Rightarrow> (nat \<Rightarrow> env) \<Rightarrow> statement list \<Rightarrow> jsobj \<Rightarrow>
   (error + jsobj option) \<times> statement list" where
  "create mc db envs issued data =
     (let instance = construct mc (envs 0) data in
      case validate mc instance of
        Inl err \<Rightarrow> (Inl err, issued)
      | Inr u \<Rightarrow>
          (case BaseModel_toDatabase mc instance of
             Inl err \<Rightarrow> (Inl err, issued)
           | Inr stored \<Rightarrow>
               (case pool_query db issued (create_query mc instance stored) of
                  (Inl err, issued1) \<Rightarrow> (Inl err, issued1)
                | (Inr [], issued1) \<Rightarrow>
                    (Inl (TypeError ''Cannot read properties of undefined''), issued1)
                | (Inr (row # rows), issued1) \<Rightarrow>
                    (Inr (BaseModel_fromDatabase mc (envs 1) (Some row)), issued1))))"

text \<open>\<open>instances.forEach(instance => instance.validate())\<close>: the first error leaves the
  loop.\<close>

fun validate_each :: "model_class \<Rightarrow> jsobj list \<Rightarrow> error option" where
  "validate_each mc [] = None"
| "validate_each mc (instance # instances) =
     (case validate mc instance of
        Inl err \<Rightarrow> Some err
      | Inr u \<Rightarrow> validate_each mc instances)"

text \<open>The multi-row INSERT of \<open>createMany\<close> (lines 593--606).\<close>

definition createMany_query :: "model_class \<Rightarrow> jsobj list \<Rightarrow> jsobj \<Rightarrow> statement" where
  "createMany_query mc instances stored =
     (let columns = insert_columns stored;
          placeholders =
            map (\<lambda>index. ''('' @
                   join '', '' (map (\<lambda>colIndex. dollar (index * length columns + colIndex + 1))
                                 [0..<length columns]) @ '')'')
              [0..<length instances]
      in (''INSERT INTO '' @ tableName mc @ '' ('' @ join '', '' columns @ '') VALUES '' @
            join '', '' placeholders @ '' RETURNING *'',
          concat (map (\<lambda>instance. map (\<lambda>col. read_property mc instance col) columns)
                    instances)))"

text \<open>\<open>createMany(dataArray)\<close> (lines 588--616). \<open>instances[0]\<close> of an empty list is
  \<open>undefined\<close>, and the call of its \<open>toDatabase\<close> a TypeError.\<close>

definition createMany ::
  "model_class \<Rightarrow> storage \<Rightarrow> (nat \<Rightarrow> env) \<Rightarrow> statement list \<Rightarrow> jsobj list \<Rightarrow>
   (error + jsobj option list) \<times> statement list" where
  "createMany mc db envs issued dataArray =
     (let instances = map (\<lambda>(i, data). construct mc (envs i) data) (enumerate 0 dataArray) in
      case validate_each mc instances of
        Some err \<Rightarrow> (Inl err, issued)
      | None \<Rightarrow>
          (case instances of
             [] \<Rightarrow> (Inl (TypeError ''Cannot read properties of undefined''), issued)
           | first # others \<Rightarrow>
               (case BaseModel_toDatabase mc first of
                  Inl err \<Rightarrow> (Inl err, issued)
                | Inr stored \<Rightarrow>
                    (case pool_query db issued (createMany_query mc instances stored) of
                       (Inl err, issued1) \<Rightarrow> (Inl err, issued1)
                     | (Inr rows, issued1) \<Rightarrow>
                         (Inr (rows_to_models mc envs (length instances) rows), issued1)))))"

section \<open>Transactions (src/utils/database.js, lines 201--218)\<close>

text \<open>
  The client that \<open>postgresPool.connect()\<close> hands out: the statements sent through it
  and the number of times it has been released. The server answers a statement with an
  error or with none. A callback receives the client, may send statements through it,
  and returns or raises.
\<close>

record client =
  statements :: "string list"
  released :: nat

type_synonym server = "string list \<Rightarrow> string \<Rightarrow> error option"

definition client_query :: "server \<Rightarrow> client \<Rightarrow> string \<Rightarrow> error option \<times> client" where
  "client_query srv c sql = (srv (statements c) sql, c\<lparr>statements := statements c @ [sql]\<rparr>)"

text \<open>The \<open>try\<close> block: BEGIN, the callback, COMMIT.\<close>

definition transaction_try ::
  "server \<Rightarrow> (client \<Rightarrow> (error + 'a) \<times> client) \<Rightarrow> client \<Rightarrow> (error + 'a) \<times> client" where
  "transaction_try srv callback c0 =
     (case client_query srv c0 ''BEGIN'' of
        (Some err, c1) \<Rightarrow> (Inl err, c1)
      | (None, c1) \<Rightarrow>
          (case callback c1 of
             (Inl err, c2) \<Rightarrow> (Inl err, c2)
           | (Inr result, c2) \<Rightarrow>
               (case client_query srv c2 ''COMMIT'' of
                  (Some err, c3) \<Rightarrow> (Inl err, c3)
                | (None, c3) \<Rightarrow> (Inr result, c3))))"

text \<open>\<open>transaction(callback)\<close>: the guard, the acquisition (\<open>acquire\<close> is the error of
  \<open>postgresPool.connect()\<close>, if it raises, and \<open>c0\<close> the client it hands out), the
  \<open>try\<close>, the \<open>catch\<close> with ROLLBACK, and \<open>finally\<close> the release.\<close>

definition transaction ::
  "bool \<Rightarrow> error option \<Rightarrow> server \<Rightarrow> (client \<Rightarrow> (error + 'a) \<times> client) \<Rightarrow> client \<Rightarrow>
   (error + 'a) \<times> client" where
  "transaction isConnected acquire srv callback c0 =
     (if \<not> isConnected then (Inl (Error ''PostgreSQL not connected''), c0)
      else
        (case acquire of
           Some err \<Rightarrow> (Inl err, c0)
         | None \<Rightarrow>
             (case (case transaction_try srv callback c0 of
                      (Inl err, c) \<Rightarrow>
                        (case client_query srv c ''ROLLBACK'' of
                           (Some err2, c') \<Rightarrow> (Inl err2, c')
                         | (None, c') \<Rightarrow> (Inl err, c'))
                    | (Inr result, c) \<Rightarrow> (Inr result, c)) of
                (outcome, c) \<Rightarrow> (outcome, c\<lparr>released := released c + 1\<rparr>))))"


section \<open>Shapes of filters\<close>



section \<open>A storage that returns what was inserted\<close>

text \<open>The row of an INSERT of \<open>create\<close>: each column with the value bound to it. A
  storage returns the inserted row when it answers the INSERT that \<open>create\<close> issues for
  the given data with that one row.\<close>

definition inserted_row :: "model_class \<Rightarrow> jsobj \<Rightarrow> jsobj \<Rightarrow> jsobj" where
  "inserted_row mc instance stored =
     zip (insert_columns stored) (snd (create_query mc instance stored))"

definition returns_inserted_row ::
  "model_class \<Rightarrow> storage \<Rightarrow> env \<Rightarrow> statement list \<Rightarrow> jsobj \<Rightarrow> bool" where
  "returns_inserted_row mc db e issued data =
     (let instance = construct mc e data in
      case BaseModel_toDatabase mc instance of
        Inl err \<Rightarrow> True
      | Inr stored \<Rightarrow>
          db issued (create_query mc instance stored) =
            Inr [inserted_row mc instance stored])"

section \<open>Plain data\<close>





section \<open>Properties\<close>

subsection \<open>Array filters in findAll and count\<close>

text \<open>
  C1. An array value in the \<open>where\<close> bag should be matched as a set of values with
  every later placeholder still bound to its own value. In the code the callback pushes
  the \<open>n\<close> values of the array one by one (\<open>params.push(...value)\<close>) and writes a
  single placeholder, so the placeholders after it are bound one position too early for
  each extra value. With two identifiers in the filter and the default limit and
  offset, \<open>findAll\<close> sends \<open>LIMIT $2 OFFSET $3\<close> with four parameters, and \<open>$2\<close> is
  the second identifier, not the limit; in \<open>count\<close> the placeholder of the next filter
  is bound to the second identifier, not to that filter's value. (\<open>findMany\<close>, line
  580, passes the whole array as one parameter.)
\<close>

theorem findAll_array_filter_shifts_parameters:
  "findAll_query ''datasets''
       (default_options\<lparr>where_bag :=
          [(''id'', JArr [JStr ''11111111-1111-4111-8111-111111111111'',
                          JStr ''22222222-2222-4222-8222-222222222222''])]\<rparr>) =
     (''SELECT * FROM datasets WHERE id = ANY($1)::uuid[] ORDER BY createdAt DESC LIMIT $2 OFFSET $3'',
      [JStr ''11111111-1111-4111-8111-111111111111'',
       JStr ''22222222-2222-4222-8222-222222222222'', JNum 50, JNum 0]) \<and>
   bound [JStr ''11111111-1111-4111-8111-111111111111'',
          JStr ''22222222-2222-4222-8222-222222222222'', JNum 50, JNum 0] 2 =
     Some (JStr ''22222222-2222-4222-8222-222222222222'') \<and>
   count_query ''datasets''
       [(''id'', JArr [JStr ''11111111-1111-4111-8111-111111111111'',
                       JStr ''22222222-2222-4222-8222-222222222222'']),
        (''status'', JStr ''active'')] =
     (''SELECT COUNT(*) as count FROM datasets WHERE id = ANY($1)::uuid[] AND status = $2'',
      [JStr ''11111111-1111-4111-8111-111111111111'',
       JStr ''22222222-2222-4222-8222-222222222222'', JStr ''active''])"
  by code_simp

text \<open>In general, for a single array filter: the text always has \<open>LIMIT $2\<close>, and
  \<open>$2\<close> is the limit only when the array has exactly one value.\<close>

lemma dollar_small:
  "dollar (Suc 0) = ''$1''" "dollar (Suc (Suc 0)) = ''$2''" "dollar (Suc (Suc (Suc 0))) = ''$3''"
  by (simp_all add: dollar_def show_nat.simps digit_def)

lemma findAll_single_array_filter:
  "findAll_query table (opts\<lparr>where_bag := [(k, JArr vs)]\<rparr>) =
     (''SELECT * FROM '' @ table @ '' WHERE '' @ k @ '' = ANY($1)::uuid[] ORDER BY '' @
        orderBy opts @ '' '' @ order opts @ '' LIMIT $2 OFFSET $3'',
      vs @ [limit opts, offset opts])"
  by (simp add: findAll_query_def findAll_condition_def Let_def dollar_small)

lemma limit_placeholder_of_array_filter:
  "bound (vs @ [limit', offset']) 2 =
     Some (case vs of [] \<Rightarrow> offset' | [v] \<Rightarrow> limit' | v # w # ws \<Rightarrow> w)"
proof (cases vs)
  case Nil
  then show ?thesis by (simp add: bound_def)
next
  case (Cons v ws)
  then show ?thesis by (cases ws) (simp_all add: bound_def)
qed

subsection \<open>The columns that create writes\<close>

lemma create_issues:
  assumes "validate mc (construct mc (envs 0) data) = Inr ()"
    and "BaseModel_toDatabase mc (construct mc (envs 0) data) = Inr stored"
  shows "snd (create mc db envs issued data) =
           issued @ [create_query mc (construct mc (envs 0) data) stored]"
  using assms
  by (simp add: create_def Let_def pool_query_def split: sum.splits list.splits prod.splits)

text \<open>
  C2. \<open>create\<close> should write the schema's columns without \<open>id\<close>, and never the
  computed fields of \<open>toJSON\<close>. The columns are the keys of \<open>instance.toDatabase()\<close>,
  which calls \<open>this.toJSON()\<close>: for a Correlation that is the method of Correlation,
  with \<open>isValid\<close> and \<open>isSignificant\<close>. Both are columns of the INSERT, whatever the
  storage answers, and the values bound to them are \<open>instance[col]\<close>, the two methods.
\<close>

theorem create_correlation_writes_computed_fields:
  "snd (create Correlation db
        (\<lambda>i. \<lparr>now = ''2024-01-01T00:00:00.000Z'',
               uuid = ''33333333-3333-4333-8333-333333333333''\<rparr>) []
        [(''sourceDatasetId'', JStr ''11111111-1111-4111-8111-111111111111''),
         (''targetDatasetId'', JStr ''22222222-2222-4222-8222-222222222222''),
         (''type'', JStr ''one_to_one'')]) =
   [(''INSERT INTO correlations (sourceDatasetId, targetDatasetId, type, parameters, confidence, validityScore, description, status, parentCorrelationId, version, tags, metadata, discoveryMethod, lastValidated, createdAt, updatedAt, isValid, isSignificant) VALUES ($1, $2, $3, $4, $5, $6, $7, $8, $9, $10, $11, $12, $13, $14, $15, $16, $17, $18) RETURNING *'',
     [JStr ''11111111-1111-4111-8111-111111111111'',
      JStr ''22222222-2222-4222-8222-222222222222'', JStr ''one_to_one'',
      JObj [], JNum 0, JNum 0, JStr [], JStr ''proposed'', JNull, JNum 1,
      JArr [], JObj [], JStr [], JNull, JStr ''2024-01-01T00:00:00.000Z'',
      JStr ''2024-01-01T00:00:00.000Z'', JFun ''isValid'', JFun ''isSignificant''])]"
proof -
  let ?e = "\<lparr>now = ''2024-01-01T00:00:00.000Z'',
             uuid = ''33333333-3333-4333-8333-333333333333''\<rparr>"
  let ?data = "[(''sourceDatasetId'', JStr ''11111111-1111-4111-8111-111111111111''),
                (''targetDatasetId'', JStr ''22222222-2222-4222-8222-222222222222''),
                (''type'', JStr ''one_to_one'')]"
  let ?inst = "construct Correlation ?e ?data"
  let ?stored =
    "[(''id'', JStr ''33333333-3333-4333-8333-333333333333''),
      (''sourceDatasetId'', JStr ''11111111-1111-4111-8111-111111111111''),
      (''targetDatasetId'', JStr ''22222222-2222-4222-8222-222222222222''),
      (''type'', JStr ''one_to_one''), (''parameters'', JObj []),
      (''confidence'', JNum 0), (''validityScore'', JNum 0),
      (''description'', JStr []), (''status'', JStr ''proposed''),
      (''parentCorrelationId'', JNull), (''version'', JNum 1),
      (''tags'', JArr []), (''metadata'', JObj []),
      (''discoveryMethod'', JStr []), (''lastValidated'', JNull),
      (''createdAt'', JStr ''2024-01-01T00:00:00.000Z''),
      (''updatedAt'', JStr ''2024-01-01T00:00:00.000Z''),
      (''isValid'', JBool False), (''isSignificant'', JBool False)]"
  have v: "validate Correlation ?inst = Inr ()"
    by code_simp
  have d: "BaseModel_toDatabase Correlation ?inst = Inr ?stored"
    by code_simp
  have q: "create_query Correlation ?inst ?stored =
    (''INSERT INTO correlations (sourceDatasetId, targetDatasetId, type, parameters, confidence, validityScore, description, status, parentCorrelationId, version, tags, metadata, discoveryMethod, lastValidated, createdAt, updatedAt, isValid, isSignificant) VALUES ($1, $2, $3, $4, $5, $6, $7, $8, $9, $10, $11, $12, $13, $14, $15, $16, $17, $18) RETURNING *'',
     [JStr ''11111111-1111-4111-8111-111111111111'',
      JStr ''22222222-2222-4222-8222-222222222222'', JStr ''one_to_one'',
      JObj [], JNum 0, JNum 0, JStr [], JStr ''proposed'', JNull, JNum 1,
      JArr [], JObj [], JStr [], JNull, JStr ''2024-01-01T00:00:00.000Z'',
      JStr ''2024-01-01T00:00:00.000Z'', JFun ''isValid'', JFun ''isSignificant''])"
    by code_simp
  show ?thesis
    using create_issues [of Correlation "\<lambda>i. ?e" ?data ?stored db "[]"] v d q by simp
qed

subsection \<open>Mutators and updatedAt\<close>

text \<open>
  C3. Every mutator should refresh \<open>updatedAt\<close>. \<open>Dataset.incrementAccessCount\<close>
  writes \<open>lastAccessed\<close> and \<open>metadata.accessCount\<close> and leaves \<open>updatedAt\<close> as it
  was: a dataset built in January and accessed in June keeps the January value. (The
  statement of the repository for the same operation, \<open>incrementAccessCount(id)\<close>,
  lines 135--148, sets \<open>updated_at = NOW()\<close>.)
\<close>

theorem incrementAccessCount_keeps_updatedAt:
  "(let before = Dataset_constructor
        \<lparr>now = ''2024-01-01T00:00:00.000Z'', uuid = ''33333333-3333-4333-8333-333333333333''\<rparr>
        [(''name'', JStr ''sales'')];
        after = Dataset_incrementAccessCount
          \<lparr>now = ''2024-06-01T00:00:00.000Z'', uuid = ''44444444-4444-4444-8444-444444444444''\<rparr>
          before
    in snd after = None \<and>
       get (fst after) ''lastAccessed'' = JStr ''2024-06-01T00:00:00.000Z'' \<and>
       get (fst after) ''metadata'' = JObj [(''accessCount'', JNum 1)] \<and>
       get before ''metadata'' = JObj [] \<and>
       get (fst after) ''updatedAt'' = JStr ''2024-01-01T00:00:00.000Z'')"
  by code_simp

text \<open>The other mutators of the two models, and \<open>update\<close> of BaseModel, do write
  \<open>updatedAt\<close>; \<open>addTag\<close> leaves the instance as it is when the tag is there
  already.\<close>

lemma get_put: "get (put k v obj) k' = (if k' = k then v else get obj k')"
  by (induction obj) (auto simp: get_def)

lemma other_mutators_refresh_updatedAt:
  "get (BaseModel_update sch e this data) ''updatedAt'' = JStr (now e)"
  "get (Dataset_updateStats e this recordCount size') ''updatedAt'' = JStr (now e)"
  "get (Dataset_archive e this) ''updatedAt'' = JStr (now e)"
  "get (Dataset_activate e this) ''updatedAt'' = JStr (now e)"
  "get (Correlation_updateValidation e this score status) ''updatedAt'' = JStr (now e)"
  "get (Correlation_incrementVersion e this) ''updatedAt'' = JStr (now e)"
  "get (Correlation_archive e this) ''updatedAt'' = JStr (now e)"
  by (simp_all add: BaseModel_update_def Dataset_updateStats_def Dataset_archive_def
      Dataset_activate_def Correlation_updateValidation_def Correlation_incrementVersion_def
      Correlation_archive_def Let_def get_put)

lemma tag_mutators_refresh_updatedAt:
  "Dataset_addTag e this tag = Inr t \<Longrightarrow> t = this \<or> get t ''updatedAt'' = JStr (now e)"
  "Dataset_removeTag e this tag = Inr t \<Longrightarrow> get t ''updatedAt'' = JStr (now e)"
  "Correlation_addTag e this tag = Inr t \<Longrightarrow> t = this \<or> get t ''updatedAt'' = JStr (now e)"
  "Correlation_removeTag e this tag = Inr t \<Longrightarrow> get t ''updatedAt'' = JStr (now e)"
  by (auto simp: Dataset_addTag_def Dataset_removeTag_def Correlation_addTag_def
      Correlation_removeTag_def get_put split: jsval.splits if_splits)

subsection \<open>Transactions\<close>

lemma transaction_releases_once:
  "released (snd (transaction True None srv callback c0)) =
     (case client_query srv c0 ''BEGIN'' of
        (Some err, c1) \<Rightarrow> released c0 + 1
      | (None, c1) \<Rightarrow> released (snd (callback c1)) + 1)"
  by (auto simp: transaction_def transaction_try_def client_query_def
      split: prod.splits sum.splits option.splits)



subsection \<open>createMany of no items\<close>

text \<open>
  C10. \<open>createMany([])\<close> returns no empty list: no instance fails validation,
  \<open>instances[0]\<close> is \<open>undefined\<close>, and the call of \<open>toDatabase\<close> on it raises a
  TypeError, which the \<open>catch\<close> logs and raises again. No statement has been issued.
\<close>

theorem createMany_empty_raises:
  "createMany mc db envs issued [] =
     (Inl (TypeError ''Cannot read properties of undefined''), issued)"
  by (simp add: createMany_def)

subsection \<open>Validation before any statement\<close>

lemma validate_each_index:
  "i < length xs \<Longrightarrow> validate mc (xs ! i) = Inl e \<Longrightarrow>
   \<exists>j e'. j \<le> i \<and> validate mc (xs ! j) = Inl e' \<and> validate_each mc xs = Some e'"
proof (induction xs arbitrary: i)
  case Nil
  then show ?case by simp
next
  case (Cons x xs)
  show ?case
  proof (cases "validate mc x")
    case (Inl e0)
    then have "0 \<le> i \<and> validate mc ((x # xs) ! 0) = Inl e0 \<and>
        validate_each mc (x # xs) = Some e0"
      by simp
    then show ?thesis by blast
  next
    case (Inr u)
    with Cons.prems obtain i' where i': "i = Suc i'" by (cases i) auto
    with Cons.prems have "i' < length xs" "validate mc (xs ! i') = Inl e" by auto
    from Cons.IH [OF this] obtain j e' where
      "j \<le> i'" "validate mc (xs ! j) = Inl e'" "validate_each mc xs = Some e'" by blast
    with Inr i' have "Suc j \<le> i \<and> validate mc ((x # xs) ! Suc j) = Inl e' \<and>
        validate_each mc (x # xs) = Some e'" by simp
    then show ?thesis by blast
  qed
qed

text \<open>
  C4. If the instance built from the data fails validation, \<open>create\<close> raises that
  error and the list of issued statements is as before: no statement reached the
  storage. If the item at some index \<open>i\<close> of a batch fails validation, \<open>createMany\<close>
  raises the validation error of an item (the first that fails, at an index \<open>j \<le> i\<close>)
  and issues no statement either: nothing of the batch is inserted.
\<close>

theorem validation_failure_issues_no_statement:
  "(validate mc (construct mc (envs 0) data) = Inl err \<longrightarrow>
      create mc db envs issued data = (Inl err, issued)) \<and>
   (i < length dataArray \<and> validate mc (construct mc (envs i) (dataArray ! i)) = Inl err \<longrightarrow>
      (\<exists>j err'. j \<le> i \<and> validate mc (construct mc (envs j) (dataArray ! j)) = Inl err' \<and>
         createMany mc db envs issued dataArray = (Inl err', issued)))"
proof (intro conjI impI)
  assume "validate mc (construct mc (envs 0) data) = Inl err"
  then show "create mc db envs issued data = (Inl err, issued)"
    by (simp add: create_def)
next
  let ?instances = "map (\<lambda>(i, data). construct mc (envs i) data) (enumerate 0 dataArray)"
  assume a: "i < length dataArray \<and>
    validate mc (construct mc (envs i) (dataArray ! i)) = Inl err"
  then have "i < length ?instances" "validate mc (?instances ! i) = Inl err"
    by (simp_all add: nth_enumerate_eq)
  from validate_each_index [OF this] obtain j err' where
    j: "j \<le> i" "validate mc (?instances ! j) = Inl err'"
       "validate_each mc ?instances = Some err'"
    by blast
  from j(1) a have "j < length dataArray" by simp
  then have "?instances ! j = construct mc (envs j) (dataArray ! j)"
    by (simp add: nth_enumerate_eq)
  with j have "j \<le> i \<and> validate mc (construct mc (envs j) (dataArray ! j)) = Inl err' \<and>
         createMany mc db envs issued dataArray = (Inl err', issued)"
    by (simp add: createMany_def)
  then show "\<exists>j err'. j \<le> i \<and>
         validate mc (construct mc (envs j) (dataArray ! j)) = Inl err' \<and>
         createMany mc db envs issued dataArray = (Inl err', issued)" by blast
qed

text \<open>At a concrete input: a Dataset without a name, alone and as the second item of a batch
  whose first item is valid.\<close>

theorem validation_failure_issues_no_statement_witness:
  "create Dataset (\<lambda>h s. Inr [])
      (\<lambda>i. \<lparr>now = ''2024-01-01T00:00:00.000Z'',
             uuid = ''33333333-3333-4333-8333-333333333333''\<rparr>) [] [] =
     (Inl (Error (''Validation failed: '' @ quoted ''name'' @ '' is not allowed to be empty'')),
      []) \<and>
   (\<exists>err'. createMany Dataset (\<lambda>h s. Inr [])
      (\<lambda>i. \<lparr>now = ''2024-01-01T00:00:00.000Z'',
             uuid = ''33333333-3333-4333-8333-333333333333''\<rparr>) []
      [[(''name'', JStr ''sales'')], []] = (Inl err', []))"
proof -
  let ?e = "\<lparr>now = ''2024-01-01T00:00:00.000Z'',
             uuid = ''33333333-3333-4333-8333-333333333333''\<rparr>"
  let ?err = "Error (''Validation failed: '' @ quoted ''name'' @ '' is not allowed to be empty'')"
  have v: "validate Dataset (construct Dataset ?e []) = Inl ?err"
    by code_simp
  have h2: "(1::nat) < length [[(''name'', JStr ''sales'')], []] \<and>
      validate Dataset
        (construct Dataset ((\<lambda>i. ?e) 1) ([[(''name'', JStr ''sales'')], []] ! 1)) = Inl ?err"
    using v by simp
  from validation_failure_issues_no_statement
         [of Dataset "\<lambda>i. ?e" "[]" ?err "\<lambda>h s. Inr []" "[]" 1
             "[[(''name'', JStr ''sales'')], []]"] v h2
  show ?thesis by blast
qed

subsection \<open>What validate reports\<close>






subsection \<open>Query text and values\<close>







text \<open>\<open>findRecentlyAccessed\<close> prints its argument into the text: the text for 7 days
  and the text for 30 days differ, and there is no parameter.\<close>

lemma findRecentlyAccessed_prints_days:
  "findRecentlyAccessed_query ''datasets'' (JNum 30) =
     Some (''SELECT * FROM datasets WHERE last_accessed >= NOW() - INTERVAL '' @ [CHR 0x27] @
           ''30 days'' @ [CHR 0x27] @ '' ORDER BY last_accessed DESC'', []) \<and>
   findRecentlyAccessed_query ''datasets'' (JNum 7) \<noteq>
     findRecentlyAccessed_query ''datasets'' (JNum 30)"
  by code_simp

subsection \<open>The scenario of a created Correlation\<close>

lemma guid_nonempty: "joi_guid a \<Longrightarrow> a \<noteq> []"
  by (auto simp: joi_guid_def)

lemma iso_nonempty: "is_iso c \<Longrightarrow> c \<noteq> []"
  by (auto simp: is_iso_def)

text \<open>The instance that the constructor builds from the data of the scenario.\<close>

lemma scenario_constructed:
  assumes "a \<noteq> []" "b \<noteq> []"
  shows "Correlation_constructor e
     [(''sourceDatasetId'', JStr a), (''targetDatasetId'', JStr b),
      (''type'', JStr ''one_to_one'')] =
     [(''id'', JStr (uuid e)), (''createdAt'', JStr (now e)), (''updatedAt'', JStr (now e)),
      (''sourceDatasetId'', JStr a), (''targetDatasetId'', JStr b),
      (''type'', JStr ''one_to_one''), (''parameters'', JObj []),
      (''confidence'', JNum 0), (''validityScore'', JNum 0),
      (''description'', JStr []), (''status'', JStr ''proposed''),
      (''parentCorrelationId'', JNull), (''version'', JNum 1),
      (''tags'', JArr []), (''metadata'', JObj []),
      (''discoveryMethod'', JStr []), (''lastValidated'', JNull)]"
  using assms
  by (simp add: Correlation_constructor_def BaseModel_constructor_def set_defaults_def
      Correlation_defaults_def assign_def js_or_def get_def)

text \<open>Such an instance is valid, also with further properties the schema does not
  know.\<close>

lemma scenario_valid:
  assumes "joi_guid a" "joi_guid b" "a \<noteq> b" "joi_guid u" "is_iso c" "is_iso d"
  shows "Correlation_validate
     ([(''id'', JStr u), (''createdAt'', JStr c), (''updatedAt'', JStr d),
      (''sourceDatasetId'', JStr a), (''targetDatasetId'', JStr b),
      (''type'', JStr ''one_to_one''), (''parameters'', JObj []),
      (''confidence'', JNum 0), (''validityScore'', JNum 0),
      (''description'', JStr []), (''status'', JStr ''proposed''),
      (''parentCorrelationId'', JNull), (''version'', JNum 1),
      (''tags'', JArr []), (''metadata'', JObj []),
      (''discoveryMethod'', JStr []), (''lastValidated'', JNull)] @ extra) = Inr ()"
  using assms guid_nonempty [of a] guid_nonempty [of b] guid_nonempty [of u]
  by (simp add: Correlation_validate_def BaseModel_validate_def joi_validate_def
      schema_errors_def Correlation_schema_def field_errors.simps get_def
      allowed_values_def only_def is_required_def strict_eq_def js_lt_def)

lemma scenario_stored:
  "BaseModel_toDatabase Correlation
     [(''id'', JStr u), (''createdAt'', JStr c), (''updatedAt'', JStr d),
      (''sourceDatasetId'', JStr a), (''targetDatasetId'', JStr b),
      (''type'', JStr ''one_to_one''), (''parameters'', JObj []),
      (''confidence'', JNum 0), (''validityScore'', JNum 0),
      (''description'', JStr []), (''status'', JStr ''proposed''),
      (''parentCorrelationId'', JNull), (''version'', JNum 1),
      (''tags'', JArr []), (''metadata'', JObj []),
      (''discoveryMethod'', JStr []), (''lastValidated'', JNull)] =
   Inr [(''id'', JStr u),
      (''sourceDatasetId'', JStr a), (''targetDatasetId'', JStr b),
      (''type'', JStr ''one_to_one''), (''parameters'', JObj []),
      (''confidence'', JNum 0), (''validityScore'', JNum 0),
      (''description'', JStr []), (''status'', JStr ''proposed''),
      (''parentCorrelationId'', JNull), (''version'', JNum 1),
      (''tags'', JArr []), (''metadata'', JObj []),
      (''discoveryMethod'', JStr []), (''lastValidated'', JNull),
      (''createdAt'', JStr c), (''updatedAt'', JStr d),
      (''isValid'', JBool False), (''isSignificant'', JBool False)]"
  by (simp add: BaseModel_toDatabase_def Correlation_def Correlation_toJSON_def
      BaseModel_toJSON_def keys_def Correlation_schema_def callable_def assign_def get_def
      trunc_def Correlation_isValid_def Correlation_isSignificant_def js_ge_def strict_eq_def)

lemma scenario_row:
  "inserted_row Correlation
     [(''id'', JStr u), (''createdAt'', JStr c), (''updatedAt'', JStr d),
      (''sourceDatasetId'', JStr a), (''targetDatasetId'', JStr b),
      (''type'', JStr ''one_to_one''), (''parameters'', JObj []),
      (''confidence'', JNum 0), (''validityScore'', JNum 0),
      (''description'', JStr []), (''status'', JStr ''proposed''),
      (''parentCorrelationId'', JNull), (''version'', JNum 1),
      (''tags'', JArr []), (''metadata'', JObj []),
      (''discoveryMethod'', JStr []), (''lastValidated'', JNull)]
     [(''id'', JStr u),
      (''sourceDatasetId'', JStr a), (''targetDatasetId'', JStr b),
      (''type'', JStr ''one_to_one''), (''parameters'', JObj []),
      (''confidence'', JNum 0), (''validityScore'', JNum 0),
      (''description'', JStr []), (''status'', JStr ''proposed''),
      (''parentCorrelationId'', JNull), (''version'', JNum 1),
      (''tags'', JArr []), (''metadata'', JObj []),
      (''discoveryMethod'', JStr []), (''lastValidated'', JNull),
      (''createdAt'', JStr c), (''updatedAt'', JStr d),
      (''isValid'', JBool False), (''isSignificant'', JBool False)] =
    [(''sourceDatasetId'', JStr a), (''targetDatasetId'', JStr b),
      (''type'', JStr ''one_to_one''), (''parameters'', JObj []),
      (''confidence'', JNum 0), (''validityScore'', JNum 0),
      (''description'', JStr []), (''status'', JStr ''proposed''),
      (''parentCorrelationId'', JNull), (''version'', JNum 1),
      (''tags'', JArr []), (''metadata'', JObj []),
      (''discoveryMethod'', JStr []), (''lastValidated'', JNull),
      (''createdAt'', JStr c), (''updatedAt'', JStr d),
      (''isValid'', JFun ''isValid''), (''isSignificant'', JFun ''isSignificant'')]"
  by (simp add: inserted_row_def insert_columns_def create_query_def keys_def
      read_property_def Correlation_def BaseModel_methods_def)

text \<open>The entity that \<open>fromDatabase\<close> builds from the inserted row.\<close>

lemma scenario_entity:
  assumes "a \<noteq> []" "b \<noteq> []" "c \<noteq> []" "d \<noteq> []"
  shows "Correlation_constructor e
    [(''sourceDatasetId'', JStr a), (''targetDatasetId'', JStr b),
      (''type'', JStr ''one_to_one''), (''parameters'', JObj []),
      (''confidence'', JNum 0), (''validityScore'', JNum 0),
      (''description'', JStr []), (''status'', JStr ''proposed''),
      (''parentCorrelationId'', JNull), (''version'', JNum 1),
      (''tags'', JArr []), (''metadata'', JObj []),
      (''discoveryMethod'', JStr []), (''lastValidated'', JNull),
      (''createdAt'', JStr c), (''updatedAt'', JStr d),
      (''isValid'', JFun ''isValid''), (''isSignificant'', JFun ''isSignificant'')] =
    [(''id'', JStr (uuid e)), (''createdAt'', JStr c), (''updatedAt'', JStr d),
      (''sourceDatasetId'', JStr a), (''targetDatasetId'', JStr b),
      (''type'', JStr ''one_to_one''), (''parameters'', JObj []),
      (''confidence'', JNum 0), (''validityScore'', JNum 0),
      (''description'', JStr []), (''status'', JStr ''proposed''),
      (''parentCorrelationId'', JNull), (''version'', JNum 1),
      (''tags'', JArr []), (''metadata'', JObj []),
      (''discoveryMethod'', JStr []), (''lastValidated'', JNull)] @
     [(''isValid'', JFun ''isValid''), (''isSignificant'', JFun ''isSignificant'')]"
  using assms
  by (simp add: Correlation_constructor_def BaseModel_constructor_def set_defaults_def
      Correlation_defaults_def assign_def js_or_def get_def)

text \<open>
  C5, as amended. The identifiers \<open>A\<close> and \<open>B\<close> of the scenario are no GUIDs, and the
  schema of Correlation asks for GUIDs. With two different GUIDs \<open>a\<close> and \<open>b\<close> in their
  place, an environment whose \<open>uuidv4()\<close> gives GUIDs and whose clock gives ISO-8601
  text, and a storage that returns the inserted row: \<open>create\<close> issues one statement and
  returns an entity with confidence 0, status \<open>proposed\<close> and version 1, on which
  \<open>validate\<close> succeeds.
\<close>

theorem create_correlation_scenario:
  assumes ga: "joi_guid a" and gb: "joi_guid b" and ab: "a \<noteq> b"
    and u0: "joi_guid (uuid (envs 0))" and n0: "is_iso (now (envs 0))"
    and u1: "joi_guid (uuid (envs 1))"
    and echo: "returns_inserted_row Correlation db (envs 0) issued
       [(''sourceDatasetId'', JStr a), (''targetDatasetId'', JStr b),
        (''type'', JStr ''one_to_one'')]"
  shows "\<exists>entity statement.
     create Correlation db envs issued
       [(''sourceDatasetId'', JStr a), (''targetDatasetId'', JStr b),
        (''type'', JStr ''one_to_one'')] = (Inr (Some entity), issued @ [statement]) \<and>
     get entity ''confidence'' = JNum 0 \<and>
     get entity ''status'' = JStr ''proposed'' \<and>
     get entity ''version'' = JNum 1 \<and>
     Correlation_validate entity = Inr ()"
proof -
  let ?data = "[(''sourceDatasetId'', JStr a), (''targetDatasetId'', JStr b),
        (''type'', JStr ''one_to_one'')]"
  let ?inst = "Correlation_constructor (envs 0) ?data"
  note ne = guid_nonempty [OF ga] guid_nonempty [OF gb] iso_nonempty [OF n0]
  have c: "construct Correlation (envs 0) ?data = ?inst"
    by (simp add: Correlation_def)
  have v: "validate Correlation ?inst = Inr ()"
    using scenario_valid [OF ga gb ab u0 n0 n0, of "[]"]
      scenario_constructed [OF ne(1,2), of "envs 0"]
    by (simp add: Correlation_def)
  obtain stored where st: "BaseModel_toDatabase Correlation ?inst = Inr stored"
    and row: "inserted_row Correlation ?inst stored =
      [(''sourceDatasetId'', JStr a), (''targetDatasetId'', JStr b),
      (''type'', JStr ''one_to_one''), (''parameters'', JObj []),
      (''confidence'', JNum 0), (''validityScore'', JNum 0),
      (''description'', JStr []), (''status'', JStr ''proposed''),
      (''parentCorrelationId'', JNull), (''version'', JNum 1),
      (''tags'', JArr []), (''metadata'', JObj []),
      (''discoveryMethod'', JStr []), (''lastValidated'', JNull),
      (''createdAt'', JStr (now (envs 0))), (''updatedAt'', JStr (now (envs 0))),
      (''isValid'', JFun ''isValid''), (''isSignificant'', JFun ''isSignificant'')]"
    using scenario_stored [of "uuid (envs 0)" "now (envs 0)" "now (envs 0)" a b] scenario_row
      scenario_constructed [OF ne(1,2), of "envs 0"] by simp
  from echo c st have answer: "db issued (create_query Correlation ?inst stored) =
      Inr [inserted_row Correlation ?inst stored]"
    by (simp add: returns_inserted_row_def Let_def)
  let ?entity = "Correlation_constructor (envs 1) (inserted_row Correlation ?inst stored)"
  have ent: "?entity =
     [(''id'', JStr (uuid (envs 1))), (''createdAt'', JStr (now (envs 0))),
      (''updatedAt'', JStr (now (envs 0))),
      (''sourceDatasetId'', JStr a), (''targetDatasetId'', JStr b),
      (''type'', JStr ''one_to_one''), (''parameters'', JObj []),
      (''confidence'', JNum 0), (''validityScore'', JNum 0),
      (''description'', JStr []), (''status'', JStr ''proposed''),
      (''parentCorrelationId'', JNull), (''version'', JNum 1),
      (''tags'', JArr []), (''metadata'', JObj []),
      (''discoveryMethod'', JStr []), (''lastValidated'', JNull)] @
     [(''isValid'', JFun ''isValid''), (''isSignificant'', JFun ''isSignificant'')]"
    unfolding row using scenario_entity [OF ne(1,2) ne(3) ne(3), of "envs 1"] by simp
  have cr: "create Correlation db envs issued ?data =
      (Inr (Some ?entity), issued @ [create_query Correlation ?inst stored])"
    using c v st answer
    by (simp add: create_def Let_def pool_query_def BaseModel_fromDatabase_def Correlation_def)
  have fields: "get ?entity ''confidence'' = JNum 0" "get ?entity ''status'' = JStr ''proposed''"
      "get ?entity ''version'' = JNum 1"
    unfolding ent by (simp_all add: get_def)
  have valid: "Correlation_validate ?entity = Inr ()"
    unfolding ent by (rule scenario_valid [OF ga gb ab u1 n0 n0])
  from cr fields valid show ?thesis by blast
qed

text \<open>At a concrete input: two GUIDs, and a storage that answers with the row of the
  INSERT.\<close>

theorem create_correlation_scenario_witness:
  "\<exists>entity statement.
     create Correlation
       (\<lambda>h s. Inr [[(''sourceDatasetId'', JStr ''11111111-1111-4111-8111-111111111111''),
          (''targetDatasetId'', JStr ''22222222-2222-4222-8222-222222222222''),
          (''type'', JStr ''one_to_one''), (''parameters'', JObj []),
          (''confidence'', JNum 0), (''validityScore'', JNum 0),
          (''description'', JStr []), (''status'', JStr ''proposed''),
          (''parentCorrelationId'', JNull), (''version'', JNum 1),
          (''tags'', JArr []), (''metadata'', JObj []),
          (''discoveryMethod'', JStr []), (''lastValidated'', JNull),
          (''createdAt'', JStr ''2024-01-01T00:00:00.000Z''),
          (''updatedAt'', JStr ''2024-01-01T00:00:00.000Z''),
          (''isValid'', JFun ''isValid''), (''isSignificant'', JFun ''isSignificant'')]])
       (\<lambda>i. \<lparr>now = ''2024-01-01T00:00:00.000Z'',
              uuid = ''33333333-3333-4333-8333-333333333333''\<rparr>) []
       [(''sourceDatasetId'', JStr ''11111111-1111-4111-8111-111111111111''),
        (''targetDatasetId'', JStr ''22222222-2222-4222-8222-222222222222''),
        (''type'', JStr ''one_to_one'')] = (Inr (Some entity), [] @ [statement]) \<and>
     get entity ''confidence'' = JNum 0 \<and>
     get entity ''status'' = JStr ''proposed'' \<and>
     get entity ''version'' = JNum 1 \<and>
     Correlation_validate entity = Inr ()"
proof -
  let ?e = "\<lparr>now = ''2024-01-01T00:00:00.000Z'',
             uuid = ''33333333-3333-4333-8333-333333333333''\<rparr>"
  let ?a = "''11111111-1111-4111-8111-111111111111''"
  let ?b = "''22222222-2222-4222-8222-222222222222''"
  let ?db = "\<lambda>(h :: statement list) (s :: statement).
       (Inr [[(''sourceDatasetId'', JStr ?a), (''targetDatasetId'', JStr ?b),
          (''type'', JStr ''one_to_one''), (''parameters'', JObj []),
          (''confidence'', JNum 0), (''validityScore'', JNum 0),
          (''description'', JStr []), (''status'', JStr ''proposed''),
          (''parentCorrelationId'', JNull), (''version'', JNum 1),
          (''tags'', JArr []), (''metadata'', JObj []),
          (''discoveryMethod'', JStr []), (''lastValidated'', JNull),
          (''createdAt'', JStr ''2024-01-01T00:00:00.000Z''),
          (''updatedAt'', JStr ''2024-01-01T00:00:00.000Z''),
          (''isValid'', JFun ''isValid''), (''isSignificant'', JFun ''isSignificant'')]]
        :: error + jsobj list)"
  have ga: "joi_guid ?a" by code_simp
  have gb: "joi_guid ?b" by code_simp
  have ab: "?a \<noteq> ?b" by simp
  have u: "joi_guid (uuid ((\<lambda>i. ?e) (0::nat)))" "joi_guid (uuid ((\<lambda>i. ?e) (1::nat)))"
    by code_simp+
  have n: "is_iso (now ((\<lambda>i. ?e) (0::nat)))" by code_simp
  have echo: "returns_inserted_row Correlation ?db ((\<lambda>i. ?e) (0::nat)) []
       [(''sourceDatasetId'', JStr ?a), (''targetDatasetId'', JStr ?b),
        (''type'', JStr ''one_to_one'')]"
    by code_simp
  from create_correlation_scenario [OF ga gb ab u(1) n u(2) echo]
  show ?thesis .
qed

text \<open>The claim as stated fails: with the identifiers \<open>A\<close> and \<open>B\<close>, \<open>create\<close> raises
  the validation error and issues nothing.\<close>

theorem create_correlation_A_B_rejected:
  "create Correlation (\<lambda>h s. Inr [])
     (\<lambda>i. \<lparr>now = ''2024-01-01T00:00:00.000Z'',
            uuid = ''33333333-3333-4333-8333-333333333333''\<rparr>) []
     [(''sourceDatasetId'', JStr ''A''), (''targetDatasetId'', JStr ''B''),
      (''type'', JStr ''one_to_one'')] =
   (Inl (Error (''Validation failed: '' @
        quoted ''sourceDatasetId'' @ '' must be a valid GUID, '' @
        quoted ''targetDatasetId'' @ '' must be a valid GUID'')), [])"
  by code_simp

subsection \<open>The round trip through toDatabase and fromDatabase\<close>


lemma keys_put: "fst ` set (put k v obj) = insert k (fst ` set obj)"
  by (induction obj) force+

lemma distinct_put: "distinct (map fst obj) \<Longrightarrow> distinct (map fst (put k v obj))"
proof (induction obj)
  case Nil
  then show ?case by simp
next
  case (Cons p obj)
  obtain k' v' where p: "p = (k', v')" by (cases p)
  with Cons show ?case
    using keys_put [of k v obj] by auto
qed


lemma distinct_fold_put:
  "distinct (map fst t) \<Longrightarrow> distinct (map fst (fold (\<lambda>(k, v) t. put k v t) src t))"
proof (induction src arbitrary: t)
  case Nil
  then show ?case by simp
next
  case (Cons p src)
  obtain k v where p: "p = (k, v)" by (cases p)
  from Cons.prems have "distinct (map fst (put k v t))" by (rule distinct_put)
  from Cons.IH [OF this] show ?case unfolding p by simp
qed


lemma distinct_assign:
  "distinct (map fst t) \<Longrightarrow> distinct (map fst (assign t src))"
  by (simp add: assign_def distinct_fold_put)

lemma set_defaults_assign:
  "set_defaults defaults data this =
     assign this (map (\<lambda>(k, d). (k, js_or (get data k) d)) defaults)"
  unfolding set_defaults_def assign_def
  by (induction defaults arbitrary: this) (auto)











lemma distinct_base: "distinct (map fst (BaseModel_constructor e data))"
  by (simp add: BaseModel_constructor_def distinct_assign)


lemma distinct_set_defaults:
  "distinct (map fst this) \<Longrightarrow> distinct (map fst (set_defaults defaults data this))"
  by (simp add: set_defaults_assign distinct_assign)

lemma map_of_None_get: "map_of obj k = None \<Longrightarrow> get obj k = JUndefined"
  by (simp add: get_def)






















end
